theory Spec2Isabelle
  imports Complex_Main
begin

section \<open>Turtle Pong: a shallow embedding of pong.py\<close>

text \<open>
  The game state of \<^verbatim>\<open>pong.py\<close> is embedded class by class: every class is a record
  (a subclass extends the record of its parent), every method a function that takes the
  object and returns the updated one. Python floats are idealised as real numbers; the
  integers of the source stay integers. The turtle of a sprite is represented by the
  number of draw calls the sprite has issued (\<open>draws\<close>). The fields \<^verbatim>\<open>x\<close> and \<^verbatim>\<open>y\<close> of a
  sprite are called \<open>pos_x\<close> and \<open>pos_y\<close>, the ball's \<^verbatim>\<open>shift\<close> is \<open>ball_shift\<close> and the
  AI paddle's \<^verbatim>\<open>base_speed\<close> is \<open>ai_base_speed\<close>. Printing and sleeping have no effect on
  the state and are left out.
\<close>

subsection \<open>Python primitives\<close>

datatype error = IndexError | ZeroDivisionError | ValueError

text \<open>\<^verbatim>\<open>int(r)\<close> on a float truncates towards zero.\<close>

definition py_int :: "real \<Rightarrow> int" where
  "py_int r = (if 0 \<le> r then \<lfloor>r\<rfloor> else \<lceil>r\<rceil>)"

text \<open>\<^verbatim>\<open>a % m\<close> takes the sign of the divisor (floored division).\<close>

definition py_mod :: "real \<Rightarrow> real \<Rightarrow> real" where
  "py_mod a m = a - m * of_int \<lfloor>a / m\<rfloor>"

definition radians :: "real \<Rightarrow> real" where
  "radians d = d * pi / 180"

text \<open>
  The random source is the sequence of raw outcomes of the successive draws.
  \<^verbatim>\<open>randint(a, b)\<close> with \<open>a \<le> b\<close> maps the next raw outcome into \<open>a..b\<close> (both ends
  included) and advances the source; every value of the range is the image of some
  outcome.
\<close>

type_synonym rng = "nat \<Rightarrow> nat"

definition rng_const :: "nat \<Rightarrow> rng" where
  "rng_const n k = n"

definition rng_next :: "rng \<Rightarrow> rng" where
  "rng_next r k = r (Suc k)"

definition randint :: "int \<Rightarrow> int \<Rightarrow> rng \<Rightarrow> int \<times> rng" where
  "randint a b r = (a + int (r 0 mod nat (b - a + 1)), rng_next r)"

subsection \<open>Constants\<close>

definition WIDTH :: int where "WIDTH = 600"
definition HEIGHT :: int where "HEIGHT = 600"
definition RIGHT :: int where "RIGHT = py_int (real_of_int WIDTH / 2)"
definition LEFT :: int where "LEFT = - RIGHT"
definition TOP :: int where "TOP = py_int (real_of_int HEIGHT / 2)"
definition BOTTOM :: int where "BOTTOM = - TOP"

definition BALL_SIZE :: int where "BALL_SIZE = 12"
definition BALL_SPEED :: int where "BALL_SPEED = 10"
definition BALL_SPEED_INCREASE :: real where "BALL_SPEED_INCREASE = 0.25"

definition PADDLE_WIDTH :: int where "PADDLE_WIDTH = 80"
definition PADDLE_HEIGHT :: int where "PADDLE_HEIGHT = 10"
definition PADDLE_SPEED :: int where "PADDLE_SPEED = 8"
definition PADDLE_DIST_FROM_BORDER :: int where "PADDLE_DIST_FROM_BORDER = 50"
definition PADDLE_BOUNDARY :: int where "PADDLE_BOUNDARY = 5"
definition TOP_PADDLE_Y :: int where
  "TOP_PADDLE_Y = py_int (real_of_int HEIGHT / 2) - PADDLE_DIST_FROM_BORDER"
definition BOTTOM_PADDLE_Y :: int where "BOTTOM_PADDLE_Y = - TOP_PADDLE_Y"

definition BOUNCE_SHARPNESS :: int where "BOUNCE_SHARPNESS = 90"
definition BOUNCE_RAND_FACTOR :: int where "BOUNCE_RAND_FACTOR = 25"

definition AI_VISIBILITY_RANGE :: int where
  "AI_VISIBILITY_RANGE = py_int (real_of_int HEIGHT / 1.8)"
definition AI_PADDLE_SPEED :: int where "AI_PADDLE_SPEED = 5"

subsection \<open>Sprite\<close>

text \<open>A hitbox is the tuple \<^verbatim>\<open>[min_x, max_x, min_y, max_y]\<close>; \<open>h0\<close> .. \<open>h3\<close> read its items.\<close>

type_synonym Hitbox = "real \<times> real \<times> real \<times> real"

definition h0 :: "Hitbox \<Rightarrow> real" where "h0 h = fst h"
definition h1 :: "Hitbox \<Rightarrow> real" where "h1 h = fst (snd h)"
definition h2 :: "Hitbox \<Rightarrow> real" where "h2 h = fst (snd (snd h))"
definition h3 :: "Hitbox \<Rightarrow> real" where "h3 h = snd (snd (snd h))"

record sprite =
  draws :: nat
  width :: int
  height :: int
  pos_x :: real
  pos_y :: real
  hitbox :: Hitbox
  changed :: bool

definition box :: "real \<Rightarrow> real \<Rightarrow> int \<Rightarrow> int \<Rightarrow> Hitbox" where
  "box cx cy w h =
     (cx - real_of_int w / 2, cx + real_of_int w / 2,
      cy - real_of_int h / 2, cy + real_of_int h / 2)"

definition Sprite_init :: "int \<Rightarrow> int \<Rightarrow> real \<Rightarrow> real \<Rightarrow> sprite" where
  "Sprite_init w h cx cy =
     \<lparr>draws = 0, width = w, height = h, pos_x = cx, pos_y = cy,
      hitbox = box cx cy w h, changed = True\<rparr>"

definition Sprite_update_hitbox :: "'a sprite_scheme \<Rightarrow> 'a sprite_scheme" where
  "Sprite_update_hitbox s = s\<lparr>hitbox := box (pos_x s) (pos_y s) (width s) (height s)\<rparr>"

text \<open>Every \<^verbatim>\<open>draw\<close> (the rectangle of a sprite, the text of a scorekeeper) is one draw call.\<close>

definition Sprite_draw :: "'a sprite_scheme \<Rightarrow> 'a sprite_scheme" where
  "Sprite_draw s = s\<lparr>draws := Suc (draws s)\<rparr>"

definition Sprite_update :: "'a sprite_scheme \<Rightarrow> 'a sprite_scheme" where
  "Sprite_update s =
     (if changed s then (Sprite_draw (Sprite_update_hitbox s))\<lparr>changed := False\<rparr> else s)"

subsection \<open>Scorekeeper\<close>

record scorekeeper = sprite +
  score :: int

definition Scorekeeper_init :: "real \<Rightarrow> real \<Rightarrow> scorekeeper" where
  "Scorekeeper_init cx cy =
     \<lparr>draws = 0, width = 0, height = 0, pos_x = cx, pos_y = cy,
      hitbox = box cx cy 0 0, changed = True, score = 0\<rparr>"

definition Scorekeeper_scored :: "scorekeeper \<Rightarrow> scorekeeper" where
  "Scorekeeper_scored s = s\<lparr>score := score s + 1, changed := True\<rparr>"

subsection \<open>Paddle\<close>

record paddle = sprite +
  shift :: int
  moving_left :: bool
  moving_right :: bool

definition Paddle_init :: "int \<Rightarrow> int \<Rightarrow> real \<Rightarrow> real \<Rightarrow> int \<Rightarrow> paddle" where
  "Paddle_init w h cx cy speed =
     \<lparr>draws = 0, width = w, height = h, pos_x = cx, pos_y = cy,
      hitbox = box cx cy w h, changed = True,
      shift = speed, moving_left = False, moving_right = False\<rparr>"

definition Paddle_left :: "'a paddle_scheme \<Rightarrow> 'a paddle_scheme" where
  "Paddle_left p =
     (if h0 (hitbox p) > - real_of_int WIDTH / 2 + real_of_int PADDLE_BOUNDARY
      then p\<lparr>pos_x := pos_x p - real_of_int (shift p)\<rparr> else p)"

definition Paddle_right :: "'a paddle_scheme \<Rightarrow> 'a paddle_scheme" where
  "Paddle_right p =
     (if h1 (hitbox p) < real_of_int WIDTH / 2 - real_of_int PADDLE_BOUNDARY
      then p\<lparr>pos_x := pos_x p + real_of_int (shift p)\<rparr> else p)"

definition Paddle_start_left :: "'a paddle_scheme \<Rightarrow> 'a paddle_scheme" where
  "Paddle_start_left p = p\<lparr>moving_left := True\<rparr>"

definition Paddle_start_right :: "'a paddle_scheme \<Rightarrow> 'a paddle_scheme" where
  "Paddle_start_right p = p\<lparr>moving_right := True\<rparr>"

definition Paddle_stop_left :: "'a paddle_scheme \<Rightarrow> 'a paddle_scheme" where
  "Paddle_stop_left p = p\<lparr>moving_left := False\<rparr>"

definition Paddle_stop_right :: "'a paddle_scheme \<Rightarrow> 'a paddle_scheme" where
  "Paddle_stop_right p = p\<lparr>moving_right := False\<rparr>"

text \<open>\<^verbatim>\<open>Paddle.update\<close>: \<^verbatim>\<open>if moving_left ... elif moving_right ...\<close>, then the redraw.\<close>

definition Paddle_move :: "'a paddle_scheme \<Rightarrow> 'a paddle_scheme" where
  "Paddle_move p =
     (if moving_left p then (Paddle_left p)\<lparr>changed := True\<rparr>
      else if moving_right p then (Paddle_right p)\<lparr>changed := True\<rparr>
      else p)"

definition Paddle_update :: "'a paddle_scheme \<Rightarrow> 'a paddle_scheme" where
  "Paddle_update p =
     (let p1 = Paddle_move p;
          p2 = (if changed p1 then Sprite_draw (Sprite_update_hitbox p1) else p1)
      in p2\<lparr>changed := False\<rparr>)"

subsection \<open>PlayerPaddle\<close>

record player_paddle = paddle +
  left_button :: string
  right_button :: string

definition PlayerPaddle_init ::
  "int \<Rightarrow> int \<Rightarrow> real \<Rightarrow> real \<Rightarrow> int \<Rightarrow> string \<Rightarrow> string \<Rightarrow> player_paddle" where
  "PlayerPaddle_init w h cx cy speed lb rb =
     \<lparr>draws = 0, width = w, height = h, pos_x = cx, pos_y = cy,
      hitbox = box cx cy w h, changed = True,
      shift = speed, moving_left = False, moving_right = False,
      left_button = lb, right_button = rb\<rparr>"

text \<open>
  \<^verbatim>\<open>key_listen\<close> only registers the four handlers; the key events themselves arrive
  between two updates and call the handlers.
\<close>

definition PlayerPaddle_update :: "player_paddle \<Rightarrow> player_paddle" where
  "PlayerPaddle_update p = Paddle_update p"

datatype key_event = Press_left | Release_left | Press_right | Release_right

fun key_handler :: "key_event \<Rightarrow> player_paddle \<Rightarrow> player_paddle" where
  "key_handler Press_left p = Paddle_start_left p"
| "key_handler Release_left p = Paddle_stop_left p"
| "key_handler Press_right p = Paddle_start_right p"
| "key_handler Release_right p = Paddle_stop_right p"

text \<open>One tick of the player paddle: the key events delivered since the last update, then the update.\<close>

definition player_tick :: "key_event list \<Rightarrow> player_paddle \<Rightarrow> player_paddle" where
  "player_tick evs p = PlayerPaddle_update (fold key_handler evs p)"

fun player_run :: "key_event list list \<Rightarrow> player_paddle \<Rightarrow> player_paddle" where
  "player_run [] p = p"
| "player_run (evs # rest) p = player_run rest (player_tick evs p)"

subsection \<open>Ball\<close>

record ball = sprite +
  dir :: real
  base_speed :: int
  ball_shift :: real
  bounces :: int
  paddles :: "paddle list"
  scores :: "scorekeeper list"

definition Ball_rand_dir :: "ball \<Rightarrow> rng \<Rightarrow> ball \<times> rng" where
  "Ball_rand_dir b r =
     (let d = randint 25 155 r; c = randint 0 1 (snd d)
      in (b\<lparr>dir := (if fst c = 1 then real_of_int (fst d) + 180 else real_of_int (fst d))\<rparr>,
          snd c))"

definition Ball_init ::
  "int \<Rightarrow> int \<Rightarrow> paddle list \<Rightarrow> scorekeeper list \<Rightarrow> rng \<Rightarrow> ball \<times> rng" where
  "Ball_init sz speed ps ss r =
     Ball_rand_dir
       \<lparr>draws = 0, width = sz, height = sz, pos_x = 0, pos_y = 0,
        hitbox = box 0 0 sz sz, changed = True,
        dir = 0, base_speed = speed, ball_shift = real_of_int speed, bounces = 0,
        paddles = ps, scores = ss\<rparr> r"

definition Ball_reset :: "ball \<Rightarrow> rng \<Rightarrow> ball \<times> rng" where
  "Ball_reset b r =
     (let b1 = b\<lparr>pos_x := 0, pos_y := 0, bounces := 0,
                ball_shift := real_of_int (base_speed b)\<rparr>;
          br = Ball_rand_dir b1 r
      in (Sprite_draw (Sprite_update_hitbox (fst br)), snd br))"

text \<open>The three conditions of the \<^verbatim>\<open>if/elif/elif\<close> of \<^verbatim>\<open>check_collisions\<close>.\<close>

definition hits_side_wall :: "Hitbox \<Rightarrow> bool" where
  "hits_side_wall h = (h0 h \<le> real_of_int LEFT \<or> h1 h \<ge> real_of_int RIGHT)"

definition hits_bottom_goal :: "Hitbox \<Rightarrow> bool" where
  "hits_bottom_goal h = (h2 h \<le> real_of_int (BOTTOM + 10))"

definition hits_top_goal :: "Hitbox \<Rightarrow> bool" where
  "hits_top_goal h = (h3 h \<ge> real_of_int TOP)"

text \<open>\<^verbatim>\<open>self.scores[i].scored()\<close>; the index is checked as Python does.\<close>

definition score_goal :: "nat \<Rightarrow> ball \<Rightarrow> error + ball" where
  "score_goal i b =
     (if i < length (scores b)
      then Inr (b\<lparr>scores := (scores b)[i := Scorekeeper_scored (scores b ! i)]\<rparr>)
      else Inl IndexError)"

definition Ball_check_walls_goals :: "ball \<Rightarrow> rng \<Rightarrow> error + ball \<times> rng" where
  "Ball_check_walls_goals b r =
     (if hits_side_wall (hitbox b)
      then Inr (b\<lparr>dir := 180 - py_mod (dir b) 360\<rparr>, r)
      else if hits_bottom_goal (hitbox b)
      then (case score_goal 0 (b\<lparr>dir := 360 - py_mod (dir b) 360\<rparr>) of
              Inl e \<Rightarrow> Inl e
            | Inr b1 \<Rightarrow> Inr (Ball_reset b1 r))
      else if hits_top_goal (hitbox b)
      then (case score_goal 1 (b\<lparr>dir := 360 - py_mod (dir b) 360\<rparr>) of
              Inl e \<Rightarrow> Inl e
            | Inr b1 \<Rightarrow> Inr (Ball_reset b1 r))
      else Inr (b, r))"

text \<open>The condition and the body of the loop over the paddles.\<close>

definition collides :: "Hitbox \<Rightarrow> Hitbox \<Rightarrow> bool" where
  "collides bh ph = (h2 bh \<le> h3 ph \<and> h3 bh \<ge> h3 ph \<and> h0 bh \<le> h1 ph \<and> h1 bh \<ge> h0 ph)"

definition bounce_offset :: "paddle \<Rightarrow> ball \<Rightarrow> real" where
  "bounce_offset p b =
     real_of_int BOUNCE_SHARPNESS * ((pos_x p - pos_x b) / 2) / (real_of_int (width p) / 2)"

definition Ball_paddle_bounce :: "paddle \<Rightarrow> ball \<Rightarrow> rng \<Rightarrow> error + ball \<times> rng" where
  "Ball_paddle_bounce p b r =
     (if collides (hitbox b) (hitbox p)
      then (if width p = 0 then Inl ZeroDivisionError
            else let j = randint (- BOUNCE_RAND_FACTOR) BOUNCE_RAND_FACTOR r
                 in Inr (b\<lparr>bounces := bounces b + 1,
                           dir := (if pos_y p < 0
                                   then 90 + bounce_offset p b + real_of_int (fst j)
                                   else 270 - bounce_offset p b + real_of_int (fst j))\<rparr>,
                         snd j))
      else Inr (b, r))"

fun Ball_check_paddles :: "paddle list \<Rightarrow> ball \<Rightarrow> rng \<Rightarrow> error + ball \<times> rng" where
  "Ball_check_paddles [] b r = Inr (b, r)"
| "Ball_check_paddles (p # ps) b r =
     (case Ball_paddle_bounce p b r of
        Inl e \<Rightarrow> Inl e
      | Inr br \<Rightarrow> Ball_check_paddles ps (fst br) (snd br))"

definition Ball_check_collisions :: "ball \<Rightarrow> rng \<Rightarrow> error + ball \<times> rng" where
  "Ball_check_collisions b r =
     (case Ball_check_walls_goals b r of
        Inl e \<Rightarrow> Inl e
      | Inr br \<Rightarrow> Ball_check_paddles (paddles (fst br)) (fst br) (snd br))"

definition Ball_move :: "ball \<Rightarrow> ball" where
  "Ball_move b =
     (let sh = real_of_int (base_speed b) + real_of_int (bounces b) * BALL_SPEED_INCREASE;
          b1 = b\<lparr>ball_shift := sh\<rparr>;
          b2 = b1\<lparr>pos_x := pos_x b1 + ball_shift b1 * cos (radians (dir b1))\<rparr>;
          b3 = b2\<lparr>pos_y := pos_y b2 + ball_shift b2 * sin (radians (dir b2))\<rparr>
      in b3\<lparr>changed := True\<rparr>)"

definition Ball_update :: "ball \<Rightarrow> rng \<Rightarrow> error + ball \<times> rng" where
  "Ball_update b r =
     (case Ball_check_collisions b r of
        Inl e \<Rightarrow> Inl e
      | Inr br \<Rightarrow> Inr (Sprite_update (Ball_move (fst br)), snd br))"

subsection \<open>AIPaddle\<close>

record ai_paddle = paddle +
  ai_base_speed :: int
  sees_ball :: bool
  rand_dir_set :: bool

definition AIPaddle_init :: "int \<Rightarrow> int \<Rightarrow> real \<Rightarrow> real \<Rightarrow> int \<Rightarrow> ai_paddle" where
  "AIPaddle_init w h cx cy speed =
     \<lparr>draws = 0, width = w, height = h, pos_x = cx, pos_y = cy,
      hitbox = box cx cy w h, changed = True,
      shift = speed, moving_left = False, moving_right = False,
      ai_base_speed = speed, sees_ball = True, rand_dir_set = False\<rparr>"

text \<open>The AI paddle reads the position of the ball it was given by \<^verbatim>\<open>set_ball\<close>.\<close>

definition AIPaddle_set_dir :: "ball \<Rightarrow> ai_paddle \<Rightarrow> ai_paddle" where
  "AIPaddle_set_dir b a =
     (if \<bar>pos_x a - pos_x b\<bar> < 1.5 * real_of_int (ai_base_speed a) then a\<lparr>shift := 0\<rparr>
      else if pos_x a > pos_x b then Paddle_stop_right (Paddle_start_left a)
      else Paddle_stop_left (Paddle_start_right a))"

definition AIPaddle_rand_dir :: "ai_paddle \<Rightarrow> rng \<Rightarrow> error + ai_paddle \<times> rng" where
  "AIPaddle_rand_dir a r =
     (if ai_base_speed a < 0 then Inl ValueError
      else let s = randint 0 (ai_base_speed a) r; c = randint 0 1 (snd s);
               a1 = a\<lparr>shift := fst s\<rparr>
           in Inr (if fst c = 1 then Paddle_stop_right (Paddle_start_left a1)
                   else Paddle_stop_left (Paddle_start_right a1),
                   snd c))"

definition AIPaddle_steer :: "ball \<Rightarrow> ai_paddle \<Rightarrow> rng \<Rightarrow> error + ai_paddle \<times> rng" where
  "AIPaddle_steer b a r =
     (let a1 = a\<lparr>sees_ball := (\<bar>pos_y a - pos_y b\<bar> < real_of_int AI_VISIBILITY_RANGE)\<rparr>
      in if sees_ball a1
         then Inr ((AIPaddle_set_dir b (a1\<lparr>shift := ai_base_speed a1\<rparr>))\<lparr>rand_dir_set := False\<rparr>, r)
         else if \<not> rand_dir_set a1
         then (case AIPaddle_rand_dir a1 r of
                 Inl e \<Rightarrow> Inl e
               | Inr ar \<Rightarrow> Inr ((fst ar)\<lparr>rand_dir_set := True\<rparr>, snd ar))
         else Inr (a1, r))"

text \<open>The two \<^verbatim>\<open>if\<close> statements of \<^verbatim>\<open>AIPaddle.update\<close> that precede \<^verbatim>\<open>super().update()\<close>.\<close>

definition AIPaddle_move :: "ai_paddle \<Rightarrow> ai_paddle" where
  "AIPaddle_move a =
     (let a1 = (if moving_left a then (Paddle_left a)\<lparr>changed := True\<rparr> else a)
      in if moving_right a1 then (Paddle_right a1)\<lparr>changed := True\<rparr> else a1)"

definition AIPaddle_update :: "ball \<Rightarrow> ai_paddle \<Rightarrow> rng \<Rightarrow> error + ai_paddle \<times> rng" where
  "AIPaddle_update b a r =
     (case AIPaddle_steer b a r of
        Inl e \<Rightarrow> Inl e
      | Inr ar \<Rightarrow> Inr (Paddle_update (AIPaddle_move (fst ar)), snd ar))"

subsection \<open>Predicates used in the statements\<close>

text \<open>
  A paddle whose hitbox agrees with its position, whose speed is not negative and whose
  edges are less than one step beyond the boundary margin.
\<close>

definition paddle_inv :: "'a paddle_scheme \<Rightarrow> bool" where
  "paddle_inv p =
     (hitbox p = box (pos_x p) (pos_y p) (width p) (height p) \<and> 0 \<le> shift p \<and>
      - real_of_int WIDTH / 2 + real_of_int PADDLE_BOUNDARY - real_of_int (shift p)
        < pos_x p - real_of_int (width p) / 2 \<and>
      pos_x p + real_of_int (width p) / 2
        < real_of_int WIDTH / 2 - real_of_int PADDLE_BOUNDARY + real_of_int (shift p))"

subsection \<open>The objects created by main\<close>

text \<open>The two paddles, as the ball sees them (as \<^verbatim>\<open>Paddle\<close> objects), the two scorekeepers and the ball.\<close>

definition main_paddles :: "paddle list" where
  "main_paddles =
     [Paddle_init PADDLE_WIDTH PADDLE_HEIGHT 0 (real_of_int TOP_PADDLE_Y) PADDLE_SPEED,
      Paddle_init PADDLE_WIDTH PADDLE_HEIGHT 0 (real_of_int BOTTOM_PADDLE_Y) AI_PADDLE_SPEED]"

definition main_scores :: "scorekeeper list" where
  "main_scores =
     [Scorekeeper_init (- real_of_int WIDTH / 2 + 50) 100,
      Scorekeeper_init (- real_of_int WIDTH / 2 + 50) (- 100)]"

definition main_ball :: "rng \<Rightarrow> ball \<times> rng" where
  "main_ball r = Ball_init BALL_SIZE BALL_SPEED main_paddles main_scores r"

definition main_paddle2 :: ai_paddle where
  "main_paddle2 =
     AIPaddle_init PADDLE_WIDTH PADDLE_HEIGHT 0 (real_of_int BOTTOM_PADDLE_Y) AI_PADDLE_SPEED"

text \<open>The ball of \<^verbatim>\<open>main\<close>, refreshed at the position \<open>(cx, cy)\<close> and flying in direction \<open>d\<close>.\<close>

definition ball_at :: "real \<Rightarrow> real \<Rightarrow> real \<Rightarrow> ball" where
  "ball_at cx cy d =
     (fst (main_ball (rng_const 0)))
       \<lparr>pos_x := cx, pos_y := cy, hitbox := box cx cy BALL_SIZE BALL_SIZE,
        changed := False, dir := d\<rparr>"

section \<open>Properties\<close>

subsection \<open>Values of the derived constants\<close>

lemma RIGHT_eq [simp]: "RIGHT = 300"
  by (simp add: RIGHT_def WIDTH_def py_int_def)

lemma LEFT_eq [simp]: "LEFT = - 300"
  by (simp add: LEFT_def)

lemma TOP_eq [simp]: "TOP = 300"
  by (simp add: TOP_def HEIGHT_def py_int_def)

lemma BOTTOM_eq [simp]: "BOTTOM = - 300"
  by (simp add: BOTTOM_def)

lemma TOP_PADDLE_Y_eq: "TOP_PADDLE_Y = 250"
  by (simp add: TOP_PADDLE_Y_def HEIGHT_def PADDLE_DIST_FROM_BORDER_def py_int_def)

lemma AI_VISIBILITY_RANGE_eq: "AI_VISIBILITY_RANGE = 333"
  by (simp add: AI_VISIBILITY_RANGE_def HEIGHT_def py_int_def)

subsection \<open>The random source\<close>

lemma randint_range:
  assumes "a \<le> b"
  shows "a \<le> fst (randint a b r)" and "fst (randint a b r) \<le> b"
proof -
  have pos: "0 < nat (b - a + 1)"
    using assms by simp
  have "r 0 mod nat (b - a + 1) < nat (b - a + 1)"
    using pos by (rule mod_less_divisor)
  then have "int (r 0 mod nat (b - a + 1)) < b - a + 1"
    using assms by linarith
  then show "fst (randint a b r) \<le> b"
    by (simp add: randint_def)
  show "a \<le> fst (randint a b r)"
    by (simp add: randint_def)
qed

subsection \<open>Launch direction\<close>

lemma Ball_rand_dir_range:
  "25 \<le> dir (fst (Ball_rand_dir b r)) \<and> dir (fst (Ball_rand_dir b r)) \<le> 155 \<or>
   205 \<le> dir (fst (Ball_rand_dir b r)) \<and> dir (fst (Ball_rand_dir b r)) \<le> 335"
proof -
  have "25 \<le> fst (randint 25 155 r)" "fst (randint 25 155 r) \<le> 155"
    by (rule randint_range, simp)+
  then show ?thesis
    by (simp add: Ball_rand_dir_def Let_def)
qed

lemma dir_Ball_reset:
  "dir (fst (Ball_reset b r)) =
   dir (fst (Ball_rand_dir (b\<lparr>pos_x := 0, pos_y := 0, bounces := 0,
                              ball_shift := real_of_int (base_speed b)\<rparr>) r))"
  by (simp add: Ball_reset_def Let_def Sprite_draw_def Sprite_update_hitbox_def)

text \<open>
  Claim C9. Whatever the random source yields, the direction of a ball that has just
  been created, and the direction of a ball that has just been reset after a goal, lies
  in [25, 155] or in [205, 335] degrees: the ball never starts within 25 degrees of the
  x-axis.
\<close>

theorem launch_direction_range:
  "(25 \<le> dir (fst (Ball_init sz speed ps ss r)) \<and> dir (fst (Ball_init sz speed ps ss r)) \<le> 155 \<or>
    205 \<le> dir (fst (Ball_init sz speed ps ss r)) \<and> dir (fst (Ball_init sz speed ps ss r)) \<le> 335) \<and>
   (25 \<le> dir (fst (Ball_reset b r)) \<and> dir (fst (Ball_reset b r)) \<le> 155 \<or>
    205 \<le> dir (fst (Ball_reset b r)) \<and> dir (fst (Ball_reset b r)) \<le> 335)"
  unfolding dir_Ball_reset Ball_init_def
  using Ball_rand_dir_range by blast

subsection \<open>Paddle bounds\<close>

lemmas hitbox_simps = h0_def h1_def h2_def h3_def box_def

lemmas paddle_simps =
  player_tick_def PlayerPaddle_update_def Paddle_update_def Paddle_move_def
  Paddle_left_def Paddle_right_def Paddle_start_left_def Paddle_start_right_def
  Paddle_stop_left_def Paddle_stop_right_def Let_def Sprite_draw_def
  Sprite_update_hitbox_def WIDTH_def PADDLE_BOUNDARY_def

lemma paddle_inv_update:
  assumes "paddle_inv p"
  shows "paddle_inv (Paddle_update p) \<and> shift (Paddle_update p) = shift p"
  using assms
  by (auto simp: paddle_inv_def Paddle_update_def Paddle_move_def Paddle_left_def
      Paddle_right_def Let_def Sprite_draw_def Sprite_update_hitbox_def hitbox_simps)

lemma paddle_inv_key:
  assumes "paddle_inv p"
  shows "paddle_inv (key_handler e p) \<and> shift (key_handler e p) = shift p"
  using assms
  by (cases e) (auto simp: paddle_inv_def Paddle_start_left_def Paddle_start_right_def
      Paddle_stop_left_def Paddle_stop_right_def)

lemma paddle_inv_keys:
  assumes "paddle_inv p"
  shows "paddle_inv (fold key_handler evs p) \<and> shift (fold key_handler evs p) = shift p"
  using assms
proof (induction evs arbitrary: p)
  case Nil
  then show ?case by simp
next
  case (Cons e evs)
  from paddle_inv_key [OF Cons.prems, of e] Cons.IH [of "key_handler e p"]
  show ?case by simp
qed

lemma paddle_inv_tick:
  assumes "paddle_inv p"
  shows "paddle_inv (player_tick evs p) \<and> shift (player_tick evs p) = shift p"
  using paddle_inv_keys [OF assms, of evs]
    paddle_inv_update [of "fold key_handler evs p"]
  by (simp add: player_tick_def PlayerPaddle_update_def)

lemma paddle_inv_run:
  assumes "paddle_inv p"
  shows "paddle_inv (player_run ticks p) \<and> shift (player_run ticks p) = shift p"
  using assms
proof (induction ticks arbitrary: p)
  case Nil
  then show ?case by simp
next
  case (Cons evs ticks)
  from paddle_inv_tick [OF Cons.prems, of evs] Cons.IH [of "player_tick evs p"]
  show ?case by simp
qed

lemma paddle_inv_init:
  assumes "0 \<le> speed"
    and "- real_of_int WIDTH / 2 + real_of_int PADDLE_BOUNDARY - real_of_int speed
           < cx - real_of_int w / 2"
    and "cx + real_of_int w / 2
           < real_of_int WIDTH / 2 - real_of_int PADDLE_BOUNDARY + real_of_int speed"
  shows "paddle_inv (PlayerPaddle_init w h cx cy speed lb rb)"
  using assms by (simp add: paddle_inv_def PlayerPaddle_init_def hitbox_simps)

text \<open>
  Claim C1, as the code has it. \<^verbatim>\<open>Paddle.left\<close> and \<^verbatim>\<open>Paddle.right\<close> test the hitbox
  before the move, so the move that starts inside the margin may end beyond it, by less
  than one step: for a player paddle created inside the margin (with a speed that is not
  negative), after any number of ticks and whatever keys are pressed or released between
  them, the left edge of the hitbox stays above \<open>-WIDTH/2 + PADDLE_BOUNDARY - speed\<close> and
  the right edge below \<open>WIDTH/2 - PADDLE_BOUNDARY + speed\<close>.
\<close>

theorem paddle_overshoot_bound:
  assumes "0 \<le> speed"
    and "- real_of_int WIDTH / 2 + real_of_int PADDLE_BOUNDARY - real_of_int speed
           < cx - real_of_int w / 2"
    and "cx + real_of_int w / 2
           < real_of_int WIDTH / 2 - real_of_int PADDLE_BOUNDARY + real_of_int speed"
  shows "- real_of_int WIDTH / 2 + real_of_int PADDLE_BOUNDARY - real_of_int speed
           < h0 (hitbox (player_run ticks (PlayerPaddle_init w h cx cy speed lb rb))) \<and>
         h1 (hitbox (player_run ticks (PlayerPaddle_init w h cx cy speed lb rb)))
           < real_of_int WIDTH / 2 - real_of_int PADDLE_BOUNDARY + real_of_int speed"
proof -
  let ?p = "PlayerPaddle_init w h cx cy speed lb rb"
  have "paddle_inv ?p"
    using assms by (rule paddle_inv_init)
  from paddle_inv_run [OF this, of ticks]
  have "paddle_inv (player_run ticks ?p)" and "shift (player_run ticks ?p) = shift ?p"
    by simp_all
  moreover have "shift ?p = speed"
    by (simp add: PlayerPaddle_init_def)
  ultimately show ?thesis
    by (simp add: paddle_inv_def hitbox_simps)
qed

text \<open>
  The player paddle of \<^verbatim>\<open>main\<close> with the left key held for 33 ticks: it stops with its
  left edge at \<open>-296\<close>, within the bound of the theorem.
\<close>

theorem paddle_overshoot_bound_witness:
  "(0::int) \<le> 8 \<and>
   - real_of_int WIDTH / 2 + real_of_int PADDLE_BOUNDARY - real_of_int 8
     < 0 - real_of_int 80 / 2 \<and>
   0 + real_of_int 80 / 2
     < real_of_int WIDTH / 2 - real_of_int PADDLE_BOUNDARY + real_of_int 8 \<and>
   h0 (hitbox (player_run ([Press_left] # replicate 32 [])
     (PlayerPaddle_init 80 10 0 250 8 ''Left'' ''Right''))) = - 296 \<and>
   - real_of_int WIDTH / 2 + real_of_int PADDLE_BOUNDARY - real_of_int 8
     < h0 (hitbox (player_run ([Press_left] # replicate 32 [])
        (PlayerPaddle_init 80 10 0 250 8 ''Left'' ''Right''))) \<and>
   h1 (hitbox (player_run ([Press_left] # replicate 32 [])
        (PlayerPaddle_init 80 10 0 250 8 ''Left'' ''Right'')))
     < real_of_int WIDTH / 2 - real_of_int PADDLE_BOUNDARY + real_of_int 8"
proof -
  have a: "(0::int) \<le> 8"
    by simp
  have b: "- real_of_int WIDTH / 2 + real_of_int PADDLE_BOUNDARY - real_of_int 8
             < 0 - real_of_int 80 / 2"
    by (simp add: WIDTH_def PADDLE_BOUNDARY_def)
  have c: "0 + real_of_int 80 / 2
             < real_of_int WIDTH / 2 - real_of_int PADDLE_BOUNDARY + real_of_int 8"
    by (simp add: WIDTH_def PADDLE_BOUNDARY_def)
  have d: "h0 (hitbox (player_run ([Press_left] # replicate 32 [])
     (PlayerPaddle_init 80 10 0 250 8 ''Left'' ''Right''))) = - 296"
    by (simp add: eval_nat_numeral paddle_simps PlayerPaddle_init_def hitbox_simps)
  from paddle_overshoot_bound
    [OF a b c, of "[Press_left] # replicate 32 []" 10 250 "''Left''" "''Right''"] a b c d
  show ?thesis
    by blast
qed

text \<open>
  The claim as stated fails: the same paddle, after 32 ticks with the left key held, has
  its left edge at \<open>-296\<close>, which is less than \<open>-WIDTH/2 + PADDLE_BOUNDARY = -295\<close>.
\<close>

theorem paddle_passes_margin:
  "h0 (hitbox (player_run ([Press_left] # replicate 31 [])
     (PlayerPaddle_init 80 10 0 250 8 ''Left'' ''Right''))) = - 296 \<and>
   h0 (hitbox (player_run ([Press_left] # replicate 31 [])
     (PlayerPaddle_init 80 10 0 250 8 ''Left'' ''Right'')))
     < - real_of_int WIDTH / 2 + real_of_int PADDLE_BOUNDARY"
  by (simp add: eval_nat_numeral paddle_simps PlayerPaddle_init_def hitbox_simps)

subsection \<open>Both intents set\<close>

text \<open>
  Claim C3, as the code has it. \<^verbatim>\<open>Paddle.update\<close> tests \<^verbatim>\<open>moving_right\<close> in the \<^verbatim>\<open>elif\<close>
  of the test of \<^verbatim>\<open>moving_left\<close>: when both intents are set only the left move is
  attempted, the paddle moves by \<open>-shift\<close> when the left bound check passes and stays
  otherwise, and the update is the one of the same paddle with \<^verbatim>\<open>moving_right\<close> cleared.
\<close>

theorem dual_intent_left_only:
  assumes "moving_left p" and "moving_right p"
  shows "pos_x (Paddle_update p) =
           (if h0 (hitbox p) > - real_of_int WIDTH / 2 + real_of_int PADDLE_BOUNDARY
            then pos_x p - real_of_int (shift p) else pos_x p) \<and>
         Paddle_update p = (Paddle_update (Paddle_stop_right p))\<lparr>moving_right := True\<rparr>"
  using assms
  by (simp add: Paddle_update_def Paddle_move_def Paddle_left_def Paddle_stop_right_def
      Let_def Sprite_draw_def Sprite_update_hitbox_def)

theorem dual_intent_left_only_witness:
  "moving_left (Paddle_start_right (Paddle_start_left (Paddle_init 80 10 0 250 8))) \<and>
   moving_right (Paddle_start_right (Paddle_start_left (Paddle_init 80 10 0 250 8))) \<and>
   pos_x (Paddle_update (Paddle_start_right (Paddle_start_left (Paddle_init 80 10 0 250 8))))
     = - 8"
proof -
  let ?p = "Paddle_start_right (Paddle_start_left (Paddle_init 80 10 0 250 8))"
  have a: "moving_left ?p" and b: "moving_right ?p"
    by (simp_all add: Paddle_start_right_def Paddle_start_left_def Paddle_init_def)
  have c: "h0 (hitbox ?p) > - real_of_int WIDTH / 2 + real_of_int PADDLE_BOUNDARY"
    and d: "pos_x ?p = 0" and e: "shift ?p = 8"
    by (simp_all add: Paddle_start_right_def Paddle_start_left_def Paddle_init_def
        hitbox_simps WIDTH_def PADDLE_BOUNDARY_def)
  from dual_intent_left_only [OF a b, THEN conjunct1] c d e a b show ?thesis
    by simp
qed

text \<open>
  The claim as stated fails: a paddle at the centre with both intents set, for which both
  bound checks pass, moves by \<open>-8\<close> in one update, not by 0.
\<close>

theorem dual_intent_not_cancelled:
  "moving_left (Paddle_start_right (Paddle_start_left (Paddle_init 80 10 0 250 8))) \<and>
   moving_right (Paddle_start_right (Paddle_start_left (Paddle_init 80 10 0 250 8))) \<and>
   h0 (hitbox (Paddle_start_right (Paddle_start_left (Paddle_init 80 10 0 250 8))))
     > - real_of_int WIDTH / 2 + real_of_int PADDLE_BOUNDARY \<and>
   h1 (hitbox (Paddle_start_right (Paddle_start_left (Paddle_init 80 10 0 250 8))))
     < real_of_int WIDTH / 2 - real_of_int PADDLE_BOUNDARY \<and>
   pos_x (Paddle_update (Paddle_start_right (Paddle_start_left (Paddle_init 80 10 0 250 8))))
     - pos_x (Paddle_start_right (Paddle_start_left (Paddle_init 80 10 0 250 8))) = - 8"
  by (simp add: paddle_simps Paddle_init_def hitbox_simps)

subsection \<open>The AI paddle\<close>

lemmas main_simps =
  main_ball_def main_paddles_def main_scores_def main_paddle2_def Ball_init_def
  Ball_rand_dir_def randint_def rng_const_def rng_next_def Paddle_init_def
  Scorekeeper_init_def BALL_SIZE_def BALL_SPEED_def PADDLE_WIDTH_def PADDLE_HEIGHT_def
  PADDLE_SPEED_def AI_PADDLE_SPEED_def TOP_PADDLE_Y_eq BOTTOM_PADDLE_Y_def

lemmas ai_simps =
  AIPaddle_update_def AIPaddle_steer_def AIPaddle_set_dir_def AIPaddle_move_def
  AIPaddle_init_def AI_VISIBILITY_RANGE_eq

text \<open>
  \<^verbatim>\<open>AIPaddle.update\<close> moves the paddle itself and then calls \<^verbatim>\<open>Paddle.update\<close>, which
  moves it again, against the hitbox of the tick's start: with one intent set and the
  bound check passed the paddle moves by twice its shift.
\<close>

lemma AIPaddle_update_left_twice:
  assumes "AIPaddle_steer b a r = Inr (a1, r1)"
    and "moving_left a1" and "\<not> moving_right a1"
    and "h0 (hitbox a1) > - real_of_int WIDTH / 2 + real_of_int PADDLE_BOUNDARY"
  shows "\<exists>a2. AIPaddle_update b a r = Inr (a2, r1) \<and>
           pos_x a2 = pos_x a1 - 2 * real_of_int (shift a1)"
  using assms
  by (simp add: AIPaddle_update_def AIPaddle_move_def Paddle_update_def Paddle_move_def
      Paddle_left_def Let_def Sprite_draw_def Sprite_update_hitbox_def)

lemma AIPaddle_update_right_twice:
  assumes "AIPaddle_steer b a r = Inr (a1, r1)"
    and "\<not> moving_left a1" and "moving_right a1"
    and "h1 (hitbox a1) < real_of_int WIDTH / 2 - real_of_int PADDLE_BOUNDARY"
  shows "\<exists>a2. AIPaddle_update b a r = Inr (a2, r1) \<and>
           pos_x a2 = pos_x a1 + 2 * real_of_int (shift a1)"
  using assms
  by (simp add: AIPaddle_update_def AIPaddle_move_def Paddle_update_def Paddle_move_def
      Paddle_right_def Let_def Sprite_draw_def Sprite_update_hitbox_def)

text \<open>
  With both intents set (which \<^verbatim>\<open>set_dir\<close> and \<^verbatim>\<open>rand_dir\<close> never produce), the two moves
  of \<^verbatim>\<open>AIPaddle.update\<close> itself cancel and the left move of \<^verbatim>\<open>Paddle.update\<close> remains.
\<close>

lemma AIPaddle_update_both_intents:
  assumes "AIPaddle_steer b a r = Inr (a1, r1)"
    and "moving_left a1" and "moving_right a1"
    and "h0 (hitbox a1) > - real_of_int WIDTH / 2 + real_of_int PADDLE_BOUNDARY"
    and "h1 (hitbox a1) < real_of_int WIDTH / 2 - real_of_int PADDLE_BOUNDARY"
  shows "\<exists>a2. AIPaddle_update b a r = Inr (a2, r1) \<and>
           pos_x a2 = pos_x a1 - real_of_int (shift a1)"
  using assms
  by (simp add: AIPaddle_update_def AIPaddle_move_def Paddle_update_def Paddle_move_def
      Paddle_left_def Paddle_right_def Let_def Sprite_draw_def Sprite_update_hitbox_def)

text \<open>
  Claim C5 at a concrete tick: the AI paddle of \<^verbatim>\<open>main\<close> at \<open>x = 0\<close> with speed 5 sees the
  ball at \<open>x = -100\<close>; only \<^verbatim>\<open>moving_left\<close> is set, the bound check passes, and the update
  leaves the paddle at \<open>x = -10\<close>: two shifts of 5, not one.
\<close>

theorem ai_paddle_moves_twice:
  "AIPaddle_update ((fst (main_ball (rng_const 0)))\<lparr>pos_x := - 100\<rparr>) main_paddle2 (rng_const 0)
     = Inr (main_paddle2\<lparr>draws := 1, pos_x := - 10, hitbox := (- 50, 30, - 255, - 245),
                         changed := False, moving_left := True\<rparr>, rng_const 0) \<and>
   shift main_paddle2 = 5 \<and> pos_x main_paddle2 = 0"
  by (simp add: ai_simps main_simps paddle_simps hitbox_simps)

subsection \<open>The collision check of the ball\<close>

lemma radians_reflect:
  "radians (180 - py_mod d 360) = pi - radians d + (2 * pi) * of_int \<lfloor>d / 360\<rfloor>"
  by (simp add: radians_def py_mod_def field_simps)

lemma cos_reflect: "cos (radians (180 - py_mod d 360)) = - cos (radians d)"
  unfolding radians_reflect by (simp add: cos_add)

lemma sin_reflect: "sin (radians (180 - py_mod d 360)) = sin (radians d)"
  unfolding radians_reflect by (simp add: sin_add)

lemma Ball_paddle_bounce_no_hit:
  "\<not> collides (hitbox b) (hitbox p) \<Longrightarrow> Ball_paddle_bounce p b r = Inr (b, r)"
  by (simp add: Ball_paddle_bounce_def)

lemma Ball_check_paddles_no_hit:
  "list_all (\<lambda>p. \<not> collides (hitbox b) (hitbox p)) ps \<Longrightarrow>
   Ball_check_paddles ps b r = Inr (b, r)"
  by (induction ps) (simp_all add: Ball_paddle_bounce_no_hit)

text \<open>The loop over the paddles changes the direction and the bounce counter only.\<close>

lemma Ball_paddle_bounce_frame:
  assumes "Ball_paddle_bounce p b r = Inr (b', r')"
  shows "pos_x b' = pos_x b \<and> pos_y b' = pos_y b \<and> scores b' = scores b \<and>
         draws b' = draws b \<and> hitbox b' = hitbox b \<and> bounces b \<le> bounces b'"
  using assms
  by (auto simp: Ball_paddle_bounce_def Let_def split: if_splits)

lemma Ball_check_paddles_frame:
  assumes "Ball_check_paddles ps b r = Inr (b', r')"
  shows "pos_x b' = pos_x b \<and> pos_y b' = pos_y b \<and> scores b' = scores b \<and>
         draws b' = draws b \<and> hitbox b' = hitbox b \<and> bounces b \<le> bounces b'"
  using assms
proof (induction ps arbitrary: b r)
  case Nil
  then show ?case by simp
next
  case (Cons p ps)
  from Cons.prems obtain b1 r1 where
    step: "Ball_paddle_bounce p b r = Inr (b1, r1)" and
    rest: "Ball_check_paddles ps b1 r1 = Inr (b', r')"
    by (auto split: sum.splits)
  from Ball_paddle_bounce_frame [OF step] Cons.IH [OF rest]
  show ?case by simp
qed

lemma Ball_reset_fields:
  "pos_x (fst (Ball_reset b r)) = 0"
  "pos_y (fst (Ball_reset b r)) = 0"
  "bounces (fst (Ball_reset b r)) = 0"
  "scores (fst (Ball_reset b r)) = scores b"
  "paddles (fst (Ball_reset b r)) = paddles b"
  "base_speed (fst (Ball_reset b r)) = base_speed b"
  "draws (fst (Ball_reset b r)) = Suc (draws b)"
  "hitbox (fst (Ball_reset b r)) = box 0 0 (width b) (height b)"
  by (simp_all add: Ball_reset_def Ball_rand_dir_def Let_def Sprite_draw_def
      Sprite_update_hitbox_def)

lemmas ball_simps = ball_at_def main_simps hitbox_simps hits_side_wall_def hits_bottom_goal_def
  hits_top_goal_def collides_def

text \<open>The four branches of the \<^verbatim>\<open>if/elif/elif\<close> of \<^verbatim>\<open>check_collisions\<close>.\<close>

lemma wall_branch:
  "hits_side_wall (hitbox b) \<Longrightarrow>
   Ball_check_walls_goals b r = Inr (b\<lparr>dir := 180 - py_mod (dir b) 360\<rparr>, r)"
  by (simp add: Ball_check_walls_goals_def)

lemma bottom_branch:
  assumes "\<not> hits_side_wall (hitbox b)" and "hits_bottom_goal (hitbox b)"
    and "scores b = s0 # ss"
  shows "Ball_check_walls_goals b r =
    Inr (Ball_reset (b\<lparr>dir := 360 - py_mod (dir b) 360,
                        scores := Scorekeeper_scored s0 # ss\<rparr>) r)"
  using assms by (simp add: Ball_check_walls_goals_def score_goal_def)

lemma top_branch:
  assumes "\<not> hits_side_wall (hitbox b)" and "\<not> hits_bottom_goal (hitbox b)"
    and "hits_top_goal (hitbox b)" and "scores b = s0 # s1 # ss"
  shows "Ball_check_walls_goals b r =
    Inr (Ball_reset (b\<lparr>dir := 360 - py_mod (dir b) 360,
                        scores := s0 # Scorekeeper_scored s1 # ss\<rparr>) r)"
  using assms by (simp add: Ball_check_walls_goals_def score_goal_def)

lemma no_branch:
  assumes "\<not> hits_side_wall (hitbox b)" and "\<not> hits_bottom_goal (hitbox b)"
    and "\<not> hits_top_goal (hitbox b)"
  shows "Ball_check_walls_goals b r = Inr (b, r)"
  using assms by (simp add: Ball_check_walls_goals_def)

text \<open>
  The update of the ball returns (it raises no error) when the ball has its two
  scorekeepers and no paddle has width 0.
\<close>

lemma Ball_check_paddles_total:
  assumes "list_all (\<lambda>p. width p \<noteq> 0) ps"
  shows "\<exists>br. Ball_check_paddles ps b r = Inr br"
  using assms
proof (induction ps arbitrary: b r)
  case Nil
  then show ?case by simp
next
  case (Cons p ps)
  then have "width p \<noteq> 0" and rest: "list_all (\<lambda>p. width p \<noteq> 0) ps"
    by simp_all
  then have "\<exists>br. Ball_paddle_bounce p b r = Inr br"
    by (simp add: Ball_paddle_bounce_def Let_def)
  then obtain br where "Ball_paddle_bounce p b r = Inr br" ..
  with Cons.IH [OF rest, of "fst br" "snd br"] show ?case
    by simp
qed

lemma Ball_check_walls_goals_total:
  assumes "2 \<le> length (scores b)"
  shows "\<exists>br. Ball_check_walls_goals b r = Inr br \<and> paddles (fst br) = paddles b"
proof -
  from assms obtain s0 t where t: "scores b = s0 # t"
    by (cases "scores b") auto
  with assms obtain s1 ss where "t = s1 # ss"
    by (cases t) auto
  with t have sc: "scores b = s0 # s1 # ss"
    by simp
  show ?thesis
  proof (cases "hits_side_wall (hitbox b)")
    case True
    then show ?thesis
      by (simp add: wall_branch)
  next
    case wall: False
    show ?thesis
    proof (cases "hits_bottom_goal (hitbox b)")
      case True
      from bottom_branch [OF wall True sc] show ?thesis
        by (simp add: Ball_reset_fields)
    next
      case bottom: False
      show ?thesis
      proof (cases "hits_top_goal (hitbox b)")
        case True
        from top_branch [OF wall bottom True sc] show ?thesis
          by (simp add: Ball_reset_fields)
      next
        case False
        from no_branch [OF wall bottom False] show ?thesis
          by simp
      qed
    qed
  qed
qed

lemma Ball_update_total:
  assumes "2 \<le> length (scores b)" and "list_all (\<lambda>p. width p \<noteq> 0) (paddles b)"
  shows "\<exists>br. Ball_update b r = Inr br"
proof -
  from Ball_check_walls_goals_total [OF assms(1), of r] obtain br where
    phase1: "Ball_check_walls_goals b r = Inr br" and ps: "paddles (fst br) = paddles b"
    by blast
  from Ball_check_paddles_total [OF assms(2), of "fst br" "snd br"] obtain br' where
    "Ball_check_paddles (paddles b) (fst br) (snd br) = Inr br'"
    by blast
  with phase1 ps show ?thesis
    by (simp add: Ball_update_def Ball_check_collisions_def)
qed

subsection \<open>Bottom goal\<close>

text \<open>
  Claim C2, as the code has it. The goal tests are the \<^verbatim>\<open>elif\<close> branches of the side
  wall test, so a goal needs a ball that does not touch a side wall. For such a ball whose
  bottom edge is at or below \<open>BOTTOM + 10\<close>, with a first scorekeeper and no paddle whose
  top edge meets the ball once it is back at the origin, the collision check adds exactly
  1 to the score of scorekeeper 0, leaves the other scores alone and returns the ball at
  \<open>(0, 0)\<close> with bounce counter 0; the rest of the update then moves the ball one step of
  its base speed from the origin, in its new direction.
\<close>

theorem bottom_goal_scores_and_resets:
  assumes "\<not> hits_side_wall (hitbox b)" and "hits_bottom_goal (hitbox b)"
    and "scores b = s0 # ss"
    and "list_all (\<lambda>p. \<not> collides (box 0 0 (width b) (height b)) (hitbox p)) (paddles b)"
  shows "(\<exists>b' r'. Ball_check_collisions b r = Inr (b', r') \<and>
           map score (scores b') = (score s0 + 1) # map score ss \<and>
           pos_x b' = 0 \<and> pos_y b' = 0 \<and> bounces b' = 0) \<and>
         (\<exists>b' r'. Ball_update b r = Inr (b', r') \<and>
           map score (scores b') = (score s0 + 1) # map score ss \<and>
           pos_x b' = real_of_int (base_speed b) * cos (radians (dir b')) \<and>
           pos_y b' = real_of_int (base_speed b) * sin (radians (dir b')) \<and>
           bounces b' = 0)"
proof -
  let ?c = "b\<lparr>dir := 360 - py_mod (dir b) 360, scores := Scorekeeper_scored s0 # ss\<rparr>"
  let ?b' = "fst (Ball_reset ?c r)"
  have phase1: "Ball_check_walls_goals b r = Inr (Ball_reset ?c r)"
    using assms(1-3) by (rule bottom_branch)
  have "list_all (\<lambda>p. \<not> collides (hitbox ?b') (hitbox p)) (paddles ?b')"
    using assms(4) by (simp add: Ball_reset_fields)
  then have "Ball_check_paddles (paddles ?b') ?b' (snd (Ball_reset ?c r))
               = Inr (?b', snd (Ball_reset ?c r))"
    by (rule Ball_check_paddles_no_hit)
  with phase1 have res: "Ball_check_collisions b r = Inr (?b', snd (Ball_reset ?c r))"
    by (simp add: Ball_check_collisions_def)
  have sc: "map score (scores ?b') = (score s0 + 1) # map score ss"
    by (simp add: Ball_reset_fields Scorekeeper_scored_def)
  have pos: "pos_x ?b' = 0 \<and> pos_y ?b' = 0 \<and> bounces ?b' = 0"
    by (simp add: Ball_reset_fields)
  let ?u = "Sprite_update (Ball_move ?b')"
  have upd: "Ball_update b r = Inr (?u, snd (Ball_reset ?c r))"
    using res by (simp add: Ball_update_def)
  have usc: "map score (scores ?u) = (score s0 + 1) # map score ss"
    using sc by (simp add: Sprite_update_def Ball_move_def Let_def Sprite_draw_def
        Sprite_update_hitbox_def)
  have upos: "pos_x ?u = real_of_int (base_speed b) * cos (radians (dir ?u)) \<and>
              pos_y ?u = real_of_int (base_speed b) * sin (radians (dir ?u)) \<and>
              bounces ?u = 0"
    by (simp add: Sprite_update_def Ball_move_def Let_def Sprite_draw_def
        Sprite_update_hitbox_def Ball_reset_fields)
  have first: "\<exists>b' r'. Ball_check_collisions b r = Inr (b', r') \<and>
           map score (scores b') = (score s0 + 1) # map score ss \<and>
           pos_x b' = 0 \<and> pos_y b' = 0 \<and> bounces b' = 0"
    by (rule exI [of _ ?b'], rule exI [of _ "snd (Ball_reset ?c r)"]) (use res sc pos in blast)
  have second: "\<exists>b' r'. Ball_update b r = Inr (b', r') \<and>
           map score (scores b') = (score s0 + 1) # map score ss \<and>
           pos_x b' = real_of_int (base_speed b) * cos (radians (dir b')) \<and>
           pos_y b' = real_of_int (base_speed b) * sin (radians (dir b')) \<and>
           bounces b' = 0"
    by (rule exI [of _ ?u], rule exI [of _ "snd (Ball_reset ?c r)"]) (use upd usc upos in blast)
  from first second show ?thesis ..
qed

text \<open>The ball of \<^verbatim>\<open>main\<close> in the bottom goal, away from the side walls.\<close>

theorem bottom_goal_scores_and_resets_witness:
  "\<not> hits_side_wall (hitbox (ball_at 0 (- 290) 270)) \<and>
   hits_bottom_goal (hitbox (ball_at 0 (- 290) 270)) \<and>
   (\<exists>b' r'. Ball_check_collisions (ball_at 0 (- 290) 270) (rng_const 0) = Inr (b', r') \<and>
      map score (scores b') = [1, 0] \<and> pos_x b' = 0 \<and> pos_y b' = 0 \<and> bounces b' = 0) \<and>
   (\<exists>b' r'. Ball_update (ball_at 0 (- 290) 270) (rng_const 0) = Inr (b', r') \<and>
      map score (scores b') = [1, 0] \<and>
      pos_x b' = 10 * cos (radians (dir b')) \<and> pos_y b' = 10 * sin (radians (dir b')) \<and>
      bounces b' = 0)"
proof -
  let ?b = "ball_at 0 (- 290) 270"
  have a: "\<not> hits_side_wall (hitbox ?b)" and b: "hits_bottom_goal (hitbox ?b)"
    by (simp_all add: ball_simps)
  have c: "scores ?b = Scorekeeper_init (- 250) 100 # [Scorekeeper_init (- 250) (- 100)]"
    by (simp add: ball_simps WIDTH_def)
  have d: "list_all (\<lambda>p. \<not> collides (box 0 0 (width ?b) (height ?b)) (hitbox p)) (paddles ?b)"
    by (simp add: ball_simps)
  have e: "base_speed ?b = 10"
    by (simp add: ball_simps)
  from bottom_goal_scores_and_resets [OF a b c d, of "rng_const 0"] a b e
  show ?thesis
    by (simp add: Scorekeeper_init_def)
qed

text \<open>
  The claim as stated fails: a ball in the bottom left corner has its bottom edge below
  \<open>BOTTOM + 10\<close>, and its update only bounces it off the wall: no score changes and the
  ball is not reset.
\<close>

theorem corner_ball_scores_nothing:
  "hits_bottom_goal (hitbox (ball_at (- 295) (- 290) 250)) \<and>
   Ball_check_collisions (ball_at (- 295) (- 290) 250) (rng_const 0)
     = Inr ((ball_at (- 295) (- 290) 250)\<lparr>dir := - 70\<rparr>, rng_const 0) \<and>
   Ball_update (ball_at (- 295) (- 290) 250) (rng_const 0)
     = Inr (Sprite_update (Ball_move ((ball_at (- 295) (- 290) 250)\<lparr>dir := - 70\<rparr>)),
            rng_const 0) \<and>
   map score (scores (Sprite_update (Ball_move ((ball_at (- 295) (- 290) 250)\<lparr>dir := - 70\<rparr>))))
     = [0, 0] \<and>
   bounces (Sprite_update (Ball_move ((ball_at (- 295) (- 290) 250)\<lparr>dir := - 70\<rparr>))) = 0 \<and>
   pos_x ((ball_at (- 295) (- 290) 250)\<lparr>dir := - 70\<rparr>) = - 295 \<and>
   pos_y ((ball_at (- 295) (- 290) 250)\<lparr>dir := - 70\<rparr>) = - 290"
  by (simp add: ball_simps Ball_update_def Ball_check_collisions_def
      Ball_check_walls_goals_def Ball_paddle_bounce_def py_mod_def Sprite_update_def
      Ball_move_def Let_def Sprite_draw_def Sprite_update_hitbox_def)

subsection \<open>Top goal\<close>

lemma Ball_check_collisions_frame:
  assumes "Ball_check_collisions b r = Inr (b', r')"
    and "Ball_check_walls_goals b r = Inr br"
  shows "scores b' = scores (fst br) \<and> pos_x b' = pos_x (fst br) \<and>
         pos_y b' = pos_y (fst br) \<and> draws b' = draws (fst br) \<and>
         hitbox b' = hitbox (fst br) \<and> bounces (fst br) \<le> bounces b'"
proof -
  from assms have "Ball_check_paddles (paddles (fst br)) (fst br) (snd br) = Inr (b', r')"
    by (simp add: Ball_check_collisions_def)
  from Ball_check_paddles_frame [OF this] show ?thesis
    by simp
qed

text \<open>
  Claim C4, as the code has it. The top goal has no inset: with two scorekeepers, the
  collision check credits scorekeeper 1 (and nobody else) exactly when the ball touches no
  side wall, is not in the bottom goal and its top edge is at or above \<open>TOP\<close>; the ball is
  then back at \<open>(0, 0)\<close>. In every other case the scores are unchanged or scorekeeper 0
  is credited.
\<close>

theorem top_goal_at_top_edge:
  assumes "Ball_check_collisions b r = Inr (b', r')" and "scores b = [s0, s1]"
  shows "(map score (scores b') = [score s0, score s1 + 1]) =
           (\<not> hits_side_wall (hitbox b) \<and> \<not> hits_bottom_goal (hitbox b) \<and>
            real_of_int TOP \<le> h3 (hitbox b)) \<and>
         (if \<not> hits_side_wall (hitbox b) \<and> \<not> hits_bottom_goal (hitbox b) \<and>
             real_of_int TOP \<le> h3 (hitbox b)
          then pos_x b' = 0 \<and> pos_y b' = 0
          else map score (scores b') = [score s0, score s1] \<or>
               map score (scores b') = [score s0 + 1, score s1])"
proof (cases "hits_side_wall (hitbox b)")
  case True
  from Ball_check_collisions_frame [OF assms(1) wall_branch [OF True]] assms(2) True
  show ?thesis by simp
next
  case wall: False
  show ?thesis
  proof (cases "hits_bottom_goal (hitbox b)")
    case True
    from Ball_check_collisions_frame [OF assms(1) bottom_branch [OF wall True assms(2)]]
      wall True
    show ?thesis by (simp add: Ball_reset_fields Scorekeeper_scored_def)
  next
    case bottom: False
    show ?thesis
    proof (cases "hits_top_goal (hitbox b)")
      case True
      from Ball_check_collisions_frame [OF assms(1) top_branch [OF wall bottom True assms(2)]]
        wall bottom True
      show ?thesis by (simp add: Ball_reset_fields Scorekeeper_scored_def hits_top_goal_def)
    next
      case False
      from Ball_check_collisions_frame [OF assms(1) no_branch [OF wall bottom False]]
        wall bottom False assms(2)
      show ?thesis by (simp add: hits_top_goal_def)
    qed
  qed
qed

text \<open>The ball of \<^verbatim>\<open>main\<close> with its top edge on the top wall.\<close>

lemma reset_top: "Ball_check_collisions (ball_at 0 294 90) (rng_const 0)
     = Inr (Ball_reset ((ball_at 0 294 90)\<lparr>dir := 270,
              scores := [Scorekeeper_init (- 250) 100,
                         Scorekeeper_scored (Scorekeeper_init (- 250) (- 100))]\<rparr>) (rng_const 0))"
    by (simp add: Ball_check_collisions_def Ball_check_walls_goals_def score_goal_def ball_simps
        Ball_reset_def Let_def Sprite_draw_def Sprite_update_hitbox_def Ball_paddle_bounce_def
        py_mod_def WIDTH_def)


theorem top_goal_at_top_edge_witness:
  "Ball_check_collisions (ball_at 0 294 90) (rng_const 0)
     = Inr (Ball_reset ((ball_at 0 294 90)\<lparr>dir := 270,
              scores := [Scorekeeper_init (- 250) 100,
                         Scorekeeper_scored (Scorekeeper_init (- 250) (- 100))]\<rparr>) (rng_const 0)) \<and>
   h3 (hitbox (ball_at 0 294 90)) = 300 \<and>
   map score (scores (fst (Ball_reset ((ball_at 0 294 90)\<lparr>dir := 270,
              scores := [Scorekeeper_init (- 250) 100,
                         Scorekeeper_scored (Scorekeeper_init (- 250) (- 100))]\<rparr>) (rng_const 0))))
     = [0, 1] \<and>
   pos_x (fst (Ball_reset ((ball_at 0 294 90)\<lparr>dir := 270,
              scores := [Scorekeeper_init (- 250) 100,
                         Scorekeeper_scored (Scorekeeper_init (- 250) (- 100))]\<rparr>) (rng_const 0))) = 0"
proof -
  let ?b = "ball_at 0 294 90"
  let ?res = "Ball_reset (?b\<lparr>dir := 270,
              scores := [Scorekeeper_init (- 250) 100,
                         Scorekeeper_scored (Scorekeeper_init (- 250) (- 100))]\<rparr>) (rng_const 0)"
  have a: "Ball_check_collisions ?b (rng_const 0) = Inr (fst ?res, snd ?res)"
    using reset_top by simp
  have b: "scores ?b = [Scorekeeper_init (- 250) 100, Scorekeeper_init (- 250) (- 100)]"
    by (simp add: ball_simps WIDTH_def)
  have c: "\<not> hits_side_wall (hitbox ?b)" "\<not> hits_bottom_goal (hitbox ?b)"
    "h3 (hitbox ?b) = 300"
    by (simp_all add: ball_simps)
  from top_goal_at_top_edge [OF a b] c reset_top
  show ?thesis
    by (simp add: Scorekeeper_init_def)
qed

text \<open>
  The claim as stated fails: a ball whose top edge is at 291, above \<open>TOP - 10 = 290\<close>,
  passes the collision check unchanged: nobody scores and the ball is not reset.
\<close>

theorem no_goal_below_top_edge:
  "real_of_int (TOP - 10) \<le> h3 (hitbox (ball_at 0 285 90)) \<and>
   Ball_check_collisions (ball_at 0 285 90) (rng_const 0) = Inr (ball_at 0 285 90, rng_const 0) \<and>
   map score (scores (ball_at 0 285 90)) = [0, 0] \<and>
   pos_y (ball_at 0 285 90) = 285"
  by (simp add: ball_simps Ball_check_collisions_def Ball_check_walls_goals_def
      Ball_paddle_bounce_def)

subsection \<open>Wall bounce\<close>

text \<open>
  Claim C10. When the hitbox of the ball meets a side wall and a goal line in the same
  tick, the \<^verbatim>\<open>if/elif/elif\<close> takes the wall branch only: the direction becomes
  \<open>180 - dir mod 360\<close>, and after the whole collision check no score has changed and
  the ball has not been reset (its position, hitbox and draw count are those of the
  start, its bounce counter has not gone down).
\<close>

theorem wall_bounce_excludes_goal:
  assumes "hits_side_wall (hitbox b)"
    and "hits_bottom_goal (hitbox b) \<or> hits_top_goal (hitbox b)"
    and "Ball_check_collisions b r = Inr (b', r')"
  shows "Ball_check_walls_goals b r = Inr (b\<lparr>dir := 180 - py_mod (dir b) 360\<rparr>, r) \<and>
         scores b' = scores b \<and> pos_x b' = pos_x b \<and> pos_y b' = pos_y b \<and>
         hitbox b' = hitbox b \<and> draws b' = draws b \<and> bounces b \<le> bounces b'"
  using Ball_check_collisions_frame [OF assms(3) wall_branch [OF assms(1)]]
    wall_branch [OF assms(1)]
  by simp

text \<open>The ball in the bottom left corner.\<close>

theorem wall_bounce_excludes_goal_witness:
  "hits_side_wall (hitbox (ball_at (- 295) (- 290) 250)) \<and>
   hits_bottom_goal (hitbox (ball_at (- 295) (- 290) 250)) \<and>
   Ball_check_collisions (ball_at (- 295) (- 290) 250) (rng_const 0)
     = Inr ((ball_at (- 295) (- 290) 250)\<lparr>dir := - 70\<rparr>, rng_const 0) \<and>
   scores ((ball_at (- 295) (- 290) 250)\<lparr>dir := - 70\<rparr>) = scores (ball_at (- 295) (- 290) 250) \<and>
   pos_x ((ball_at (- 295) (- 290) 250)\<lparr>dir := - 70\<rparr>) = pos_x (ball_at (- 295) (- 290) 250)"
proof -
  let ?b = "ball_at (- 295) (- 290) 250"
  have a: "hits_side_wall (hitbox ?b)" and b: "hits_bottom_goal (hitbox ?b)"
    by (simp_all add: ball_simps)
  have c: "Ball_check_collisions ?b (rng_const 0) = Inr (?b\<lparr>dir := - 70\<rparr>, rng_const 0)"
    by (simp add: ball_simps Ball_check_collisions_def Ball_check_walls_goals_def
        Ball_paddle_bounce_def py_mod_def)
  from wall_bounce_excludes_goal [OF a disjI1 [OF b] c] a b c
  show ?thesis
    by simp
qed

lemma rng_next_const [simp]: "rng_next (rng_const n) = rng_const n"
  by (rule ext) (simp add: rng_next_def rng_const_def)

text \<open>The update of a ball that misses every paddle, and where the move takes it.\<close>

lemma Ball_update_no_hit:
  assumes "Ball_check_walls_goals b r = Inr (b1, r1)"
    and "list_all (\<lambda>p. \<not> collides (hitbox b1) (hitbox p)) (paddles b1)"
  shows "Ball_update b r = Inr (Sprite_update (Ball_move b1), r1)"
  using assms Ball_check_paddles_no_hit [OF assms(2), of r1]
  by (simp add: Ball_update_def Ball_check_collisions_def)

lemma Ball_move_pos:
  "pos_x (Sprite_update (Ball_move b)) =
     pos_x b + (real_of_int (base_speed b) + real_of_int (bounces b) * BALL_SPEED_INCREASE)
               * cos (radians (dir b))"
  "pos_y (Sprite_update (Ball_move b)) =
     pos_y b + (real_of_int (base_speed b) + real_of_int (bounces b) * BALL_SPEED_INCREASE)
               * sin (radians (dir b))"
  by (simp_all add: Sprite_update_def Ball_move_def Let_def Sprite_draw_def
      Sprite_update_hitbox_def)

text \<open>
  Claim C7. When the hitbox of the ball touches a side wall, the wall branch sets the
  direction to \<open>180 - (dir mod 360)\<close>. For every speed \<open>s\<close> the horizontal component
  \<open>s * cos\<close> of the new direction is the negated one of the old direction and the
  vertical component \<open>s * sin\<close> is the same, so the sign of the first flips and the sign
  of the second is kept. When no paddle is hit in the same tick, the update moves the
  ball by exactly these components at the speed of the tick.
\<close>

theorem wall_bounce_reflects:
  assumes "hits_side_wall (hitbox b)"
  shows "Ball_check_walls_goals b r = Inr (b\<lparr>dir := 180 - py_mod (dir b) 360\<rparr>, r) \<and>
         s * cos (radians (180 - py_mod (dir b) 360)) = - (s * cos (radians (dir b))) \<and>
         s * sin (radians (180 - py_mod (dir b) 360)) = s * sin (radians (dir b)) \<and>
         sgn (s * cos (radians (180 - py_mod (dir b) 360))) = - sgn (s * cos (radians (dir b))) \<and>
         sgn (s * sin (radians (180 - py_mod (dir b) 360))) = sgn (s * sin (radians (dir b))) \<and>
         (list_all (\<lambda>p. \<not> collides (hitbox b) (hitbox p)) (paddles b) \<longrightarrow>
          (\<exists>b'. Ball_update b r = Inr (b', r) \<and>
                 dir b' = 180 - py_mod (dir b) 360 \<and>
                 pos_x b' = pos_x b
                   - (real_of_int (base_speed b) + real_of_int (bounces b) * BALL_SPEED_INCREASE)
                     * cos (radians (dir b)) \<and>
                 pos_y b' = pos_y b
                   + (real_of_int (base_speed b) + real_of_int (bounces b) * BALL_SPEED_INCREASE)
                     * sin (radians (dir b))))"
proof -
  let ?b1 = "b\<lparr>dir := 180 - py_mod (dir b) 360\<rparr>"
  have phase1: "Ball_check_walls_goals b r = Inr (?b1, r)"
    using assms by (rule wall_branch)
  have c: "s * cos (radians (180 - py_mod (dir b) 360)) = - (s * cos (radians (dir b)))"
    by (simp add: cos_reflect)
  have sn: "s * sin (radians (180 - py_mod (dir b) 360)) = s * sin (radians (dir b))"
    by (simp add: sin_reflect)
  have sc: "sgn (s * cos (radians (180 - py_mod (dir b) 360))) = - sgn (s * cos (radians (dir b)))"
    unfolding c by (simp add: sgn_minus)
  have ss: "sgn (s * sin (radians (180 - py_mod (dir b) 360))) = sgn (s * sin (radians (dir b)))"
    unfolding sn ..
  have upd: "\<exists>b'. Ball_update b r = Inr (b', r) \<and>
                 dir b' = 180 - py_mod (dir b) 360 \<and>
                 pos_x b' = pos_x b
                   - (real_of_int (base_speed b) + real_of_int (bounces b) * BALL_SPEED_INCREASE)
                     * cos (radians (dir b)) \<and>
                 pos_y b' = pos_y b
                   + (real_of_int (base_speed b) + real_of_int (bounces b) * BALL_SPEED_INCREASE)
                     * sin (radians (dir b))"
    if nohit: "list_all (\<lambda>p. \<not> collides (hitbox b) (hitbox p)) (paddles b)"
  proof -
    from nohit have "list_all (\<lambda>p. \<not> collides (hitbox ?b1) (hitbox p)) (paddles ?b1)"
      by simp
    from Ball_update_no_hit [OF phase1 this]
    have u: "Ball_update b r = Inr (Sprite_update (Ball_move ?b1), r)" .
    have d: "dir (Sprite_update (Ball_move ?b1)) = 180 - py_mod (dir b) 360"
      by (simp add: Sprite_update_def Ball_move_def Let_def Sprite_draw_def
          Sprite_update_hitbox_def)
    have px: "pos_x (Sprite_update (Ball_move ?b1)) = pos_x b
                   - (real_of_int (base_speed b) + real_of_int (bounces b) * BALL_SPEED_INCREASE)
                     * cos (radians (dir b))"
      by (simp add: Ball_move_pos cos_reflect)
    have py: "pos_y (Sprite_update (Ball_move ?b1)) = pos_y b
                   + (real_of_int (base_speed b) + real_of_int (bounces b) * BALL_SPEED_INCREASE)
                     * sin (radians (dir b))"
      by (simp add: Ball_move_pos sin_reflect)
    show ?thesis
      by (rule exI [of _ "Sprite_update (Ball_move ?b1)"]) (use u d px py in blast)
  qed
  from phase1 c sn sc ss upd show ?thesis
    by simp
qed


text \<open>The ball of \<^verbatim>\<open>main\<close> on the left wall, flying at 150 degrees: it leaves at 30 degrees.\<close>

theorem wall_bounce_reflects_witness:
  "hits_side_wall (hitbox (ball_at (- 295) 0 150)) \<and>
   Ball_check_walls_goals (ball_at (- 295) 0 150) (rng_const 0)
     = Inr ((ball_at (- 295) 0 150)\<lparr>dir := 30\<rparr>, rng_const 0) \<and>
   cos (radians 30) = - cos (radians 150) \<and>
   sin (radians 30) = sin (radians 150) \<and>
   (\<exists>b'. Ball_update (ball_at (- 295) 0 150) (rng_const 0) = Inr (b', rng_const 0) \<and>
      dir b' = 30 \<and>
      pos_x b' = - 295 - 10 * cos (radians 150) \<and>
      pos_y b' = 10 * sin (radians 150))"
proof -
  let ?b = "ball_at (- 295) 0 150"
  have a: "hits_side_wall (hitbox ?b)"
    by (simp add: ball_simps)
  have d: "180 - py_mod 150 360 = (30::real)" and e: "dir ?b = 150"
    by (simp_all add: ball_simps py_mod_def)
  have f: "list_all (\<lambda>p. \<not> collides (hitbox ?b) (hitbox p)) (paddles ?b)"
    by (simp add: ball_simps)
  have g: "pos_x ?b = - 295" "pos_y ?b = 0" "base_speed ?b = 10" "bounces ?b = 0"
    by (simp_all add: ball_simps)
  from wall_bounce_reflects [OF a, of "rng_const 0" 1] f
  show ?thesis
    unfolding e g using a by (simp add: d)
qed

subsection \<open>Paddle bounce\<close>

text \<open>One pass of the loop body over a paddle that the ball meets.\<close>

lemma Ball_paddle_bounce_hit:
  assumes "collides (hitbox b) (hitbox p)" and "width p \<noteq> 0"
  shows "Ball_paddle_bounce p b r =
           Inr (b\<lparr>bounces := bounces b + 1,
                  dir := (if pos_y p < 0
                          then 90 + real_of_int BOUNCE_SHARPNESS * (pos_x p - pos_x b)
                                      / real_of_int (width p)
                                  + real_of_int (fst (randint (- BOUNCE_RAND_FACTOR) BOUNCE_RAND_FACTOR r))
                          else 270 - real_of_int BOUNCE_SHARPNESS * (pos_x p - pos_x b)
                                       / real_of_int (width p)
                                   + real_of_int (fst (randint (- BOUNCE_RAND_FACTOR) BOUNCE_RAND_FACTOR r)))\<rparr>,
                snd (randint (- BOUNCE_RAND_FACTOR) BOUNCE_RAND_FACTOR r))"
proof -
  have "bounce_offset p b =
      real_of_int BOUNCE_SHARPNESS * (pos_x p - pos_x b) / real_of_int (width p)"
    using assms(2) by (simp add: bounce_offset_def)
  with assms show ?thesis
    by (simp add: Ball_paddle_bounce_def Let_def)
qed

lemma jitter_range:
  "- BOUNCE_RAND_FACTOR \<le> fst (randint (- BOUNCE_RAND_FACTOR) BOUNCE_RAND_FACTOR r) \<and>
   fst (randint (- BOUNCE_RAND_FACTOR) BOUNCE_RAND_FACTOR r) \<le> BOUNCE_RAND_FACTOR"
  using randint_range [of "- BOUNCE_RAND_FACTOR" BOUNCE_RAND_FACTOR r]
  by (simp add: BOUNCE_RAND_FACTOR_def)

text \<open>The loop over a list of paddles is the loop over its front followed by the loop over its rest.\<close>

lemma Ball_check_paddles_append:
  "Ball_check_paddles (ps @ qs) b r =
     (case Ball_check_paddles ps b r of
        Inl e \<Rightarrow> Inl e
      | Inr br \<Rightarrow> Ball_check_paddles qs (fst br) (snd br))"
  by (induction ps arbitrary: b r) (simp_all split: sum.splits)

text \<open>
  Every paddle of a list (none of width 0) that the ball meets adds exactly 1 to the
  bounce counter; the loop changes nothing but the counter and the direction.
\<close>

lemma Ball_check_paddles_count:
  assumes "list_all (\<lambda>q. width q \<noteq> 0) ps"
  shows "\<exists>d r'. Ball_check_paddles ps b r =
           Inr (b\<lparr>bounces := bounces b
                       + int (length (filter (\<lambda>q. collides (hitbox b) (hitbox q)) ps)),
                  dir := d\<rparr>, r')"
  using assms
proof (induction ps arbitrary: b r)
  case Nil
  show ?case
    by (rule exI [of _ "dir b"], rule exI [of _ r]) simp
next
  case (Cons p ps)
  then have w: "width p \<noteq> 0" and rest: "list_all (\<lambda>q. width q \<noteq> 0) ps"
    by simp_all
  show ?case
  proof (cases "collides (hitbox b) (hitbox p)")
    case True
    let ?j = "randint (- BOUNCE_RAND_FACTOR) BOUNCE_RAND_FACTOR r"
    from Ball_paddle_bounce_hit [OF True w, of r] obtain d0 where
      step: "Ball_paddle_bounce p b r = Inr (b\<lparr>bounces := bounces b + 1, dir := d0\<rparr>, snd ?j)"
      by blast
    let ?b1 = "b\<lparr>bounces := bounces b + 1, dir := d0\<rparr>"
    from Cons.IH [OF rest, of ?b1 "snd ?j"] obtain d r' where
      "Ball_check_paddles ps ?b1 (snd ?j) =
         Inr (?b1\<lparr>bounces := bounces ?b1
                       + int (length (filter (\<lambda>q. collides (hitbox ?b1) (hitbox q)) ps)),
                    dir := d\<rparr>, r')"
      by blast
    with step True have
      "Ball_check_paddles (p # ps) b r =
         Inr (b\<lparr>bounces := bounces b
                     + int (length (filter (\<lambda>q. collides (hitbox b) (hitbox q)) (p # ps))),
                dir := d\<rparr>, r')"
      by (simp add: algebra_simps)
    then show ?thesis
      by blast
  next
    case False
    from Cons.IH [OF rest, of b r] Ball_paddle_bounce_no_hit [OF False, of r] False
    show ?thesis
      by simp
  qed
qed


text \<open>
  Claim C8. Let the ball be as the wall and goal tests of the collision check leave it,
  and let a paddle of the ball's list (of a width other than 0, like the paddles before
  it) be the last one the ball meets. Then the collision check returns, every paddle it
  met has added exactly 1 to the bounce counter, and the direction is
  \<open>90 + BOUNCE_SHARPNESS * (paddle.x - ball.x) / paddle.width + j\<close> for a paddle in the
  lower half (\<open>y < 0\<close>) and \<open>270 - BOUNCE_SHARPNESS * (paddle.x - ball.x) / paddle.width + j\<close>
  for the other one, for an integer \<open>j\<close> between \<open>-BOUNCE_RAND_FACTOR\<close> and
  \<open>BOUNCE_RAND_FACTOR\<close>; nothing else of the ball changes, and the update of the tick
  moves the ball with this counter and this direction.
\<close>

theorem paddle_bounce_direction:
  assumes "Ball_check_walls_goals b r = Inr (b1, r1)"
    and "paddles b1 = ps1 @ p # ps2"
    and "list_all (\<lambda>q. width q \<noteq> 0) ps1"
    and "collides (hitbox b1) (hitbox p)" and "width p \<noteq> 0"
    and "list_all (\<lambda>q. \<not> collides (hitbox b1) (hitbox q)) ps2"
  shows "\<exists>j r'. - BOUNCE_RAND_FACTOR \<le> j \<and> j \<le> BOUNCE_RAND_FACTOR \<and>
           Ball_check_collisions b r =
             Inr (b1\<lparr>bounces := bounces b1
                          + int (length (filter (\<lambda>q. collides (hitbox b1) (hitbox q)) ps1)) + 1,
                     dir := (if pos_y p < 0
                             then 90 + real_of_int BOUNCE_SHARPNESS * (pos_x p - pos_x b1)
                                         / real_of_int (width p) + real_of_int j
                             else 270 - real_of_int BOUNCE_SHARPNESS * (pos_x p - pos_x b1)
                                          / real_of_int (width p) + real_of_int j)\<rparr>, r') \<and>
           Ball_update b r =
             Inr (Sprite_update (Ball_move
                   (b1\<lparr>bounces := bounces b1
                          + int (length (filter (\<lambda>q. collides (hitbox b1) (hitbox q)) ps1)) + 1,
                     dir := (if pos_y p < 0
                             then 90 + real_of_int BOUNCE_SHARPNESS * (pos_x p - pos_x b1)
                                         / real_of_int (width p) + real_of_int j
                             else 270 - real_of_int BOUNCE_SHARPNESS * (pos_x p - pos_x b1)
                                          / real_of_int (width p) + real_of_int j)\<rparr>)), r')"
proof -
  let ?n = "int (length (filter (\<lambda>q. collides (hitbox b1) (hitbox q)) ps1))"
  from Ball_check_paddles_count [OF assms(3), of b1 r1] obtain d r2 where
    front: "Ball_check_paddles ps1 b1 r1 = Inr (b1\<lparr>bounces := bounces b1 + ?n, dir := d\<rparr>, r2)"
    by blast
  let ?b2 = "b1\<lparr>bounces := bounces b1 + ?n, dir := d\<rparr>"
  let ?j = "randint (- BOUNCE_RAND_FACTOR) BOUNCE_RAND_FACTOR r2"
  let ?dir = "if pos_y p < 0
              then 90 + real_of_int BOUNCE_SHARPNESS * (pos_x p - pos_x b1)
                          / real_of_int (width p) + real_of_int (fst ?j)
              else 270 - real_of_int BOUNCE_SHARPNESS * (pos_x p - pos_x b1)
                           / real_of_int (width p) + real_of_int (fst ?j)"
  let ?b3 = "b1\<lparr>bounces := bounces b1 + ?n + 1, dir := ?dir\<rparr>"
  have "collides (hitbox ?b2) (hitbox p)"
    using assms(4) by simp
  from Ball_paddle_bounce_hit [OF this assms(5), of r2]
  have hit: "Ball_paddle_bounce p ?b2 r2 = Inr (?b3, snd ?j)"
    by simp
  have "list_all (\<lambda>q. \<not> collides (hitbox ?b3) (hitbox q)) ps2"
    using assms(6) by simp
  then have rest: "Ball_check_paddles ps2 ?b3 (snd ?j) = Inr (?b3, snd ?j)"
    by (rule Ball_check_paddles_no_hit)
  have loop: "Ball_check_paddles (ps1 @ p # ps2) b1 r1 = Inr (?b3, snd ?j)"
    using front hit rest by (simp add: Ball_check_paddles_append)
  have coll: "Ball_check_collisions b r = Inr (?b3, snd ?j)"
    using assms(1,2) loop by (simp add: Ball_check_collisions_def)
  then have upd: "Ball_update b r = Inr (Sprite_update (Ball_move ?b3), snd ?j)"
    by (simp add: Ball_update_def)
  show ?thesis
    by (rule exI [of _ "fst ?j"], rule exI [of _ "snd ?j"])
      (use jitter_range [of r2] coll upd in blast)
qed


text \<open>
  The ball of \<^verbatim>\<open>main\<close> landing on the bottom paddle, 10 units right of its centre, away
  from the walls and the goals: the top paddle is passed over, the bottom one bounces it.
\<close>

theorem paddle_bounce_direction_witness:
  "Ball_check_walls_goals (ball_at 10 (- 240) 250) (rng_const 0)
     = Inr (ball_at 10 (- 240) 250, rng_const 0) \<and>
   paddles (ball_at 10 (- 240) 250)
     = [Paddle_init PADDLE_WIDTH PADDLE_HEIGHT 0 250 PADDLE_SPEED]
       @ Paddle_init PADDLE_WIDTH PADDLE_HEIGHT 0 (- 250) AI_PADDLE_SPEED # [] \<and>
   collides (hitbox (ball_at 10 (- 240) 250))
     (hitbox (Paddle_init PADDLE_WIDTH PADDLE_HEIGHT 0 (- 250) AI_PADDLE_SPEED)) \<and>
   Ball_check_collisions (ball_at 10 (- 240) 250) (rng_const 0)
     = Inr ((ball_at 10 (- 240) 250)\<lparr>bounces := 1, dir := 90 + 90 * (0 - 10) / 80 + (- 25)\<rparr>,
            rng_const 0) \<and>
   (\<exists>j r'. - BOUNCE_RAND_FACTOR \<le> j \<and> j \<le> BOUNCE_RAND_FACTOR \<and>
      Ball_check_collisions (ball_at 10 (- 240) 250) (rng_const 0)
        = Inr ((ball_at 10 (- 240) 250)
                 \<lparr>bounces := 1, dir := 90 + 90 * (0 - 10) / 80 + real_of_int j\<rparr>, r') \<and>
      Ball_update (ball_at 10 (- 240) 250) (rng_const 0)
        = Inr (Sprite_update (Ball_move ((ball_at 10 (- 240) 250)
                 \<lparr>bounces := 1, dir := 90 + 90 * (0 - 10) / 80 + real_of_int j\<rparr>)), r'))"
proof -
  let ?b = "ball_at 10 (- 240) 250"
  let ?t = "Paddle_init PADDLE_WIDTH PADDLE_HEIGHT 0 250 PADDLE_SPEED"
  let ?p = "Paddle_init PADDLE_WIDTH PADDLE_HEIGHT 0 (- 250) AI_PADDLE_SPEED"
  have a: "Ball_check_walls_goals ?b (rng_const 0) = Inr (?b, rng_const 0)"
    by (simp add: Ball_check_walls_goals_def ball_simps)
  have b: "paddles ?b = [?t] @ ?p # []"
    by (simp add: ball_simps)
  have c: "list_all (\<lambda>q. width q \<noteq> 0) [?t]"
    by (simp add: ball_simps)
  have d: "collides (hitbox ?b) (hitbox ?p)" and e: "width ?p \<noteq> 0"
    by (simp_all add: ball_simps)
  have f: "list_all (\<lambda>q. \<not> collides (hitbox ?b) (hitbox q)) []"
    by simp
  have g: "Ball_check_collisions ?b (rng_const 0)
     = Inr (?b\<lparr>bounces := 1, dir := 90 + 90 * (0 - 10) / 80 + (- 25)\<rparr>, rng_const 0)"
    by (simp add: ball_simps Ball_check_collisions_def Ball_check_walls_goals_def
        Ball_paddle_bounce_def bounce_offset_def Let_def BOUNCE_SHARPNESS_def
        BOUNCE_RAND_FACTOR_def)
  have h: "pos_x ?b = 10" "pos_y ?p = - 250" "pos_x ?p = 0" "width ?p = 80" "bounces ?b = 0"
    "filter (\<lambda>q. collides (hitbox ?b) (hitbox q)) [?t] = []"
    by (simp_all add: ball_simps)
  from paddle_bounce_direction [OF a b c d e f]
  have "\<exists>j r'. - BOUNCE_RAND_FACTOR \<le> j \<and> j \<le> BOUNCE_RAND_FACTOR \<and>
      Ball_check_collisions ?b (rng_const 0)
        = Inr (?b\<lparr>bounces := 1, dir := 90 + 90 * (0 - 10) / 80 + real_of_int j\<rparr>, r') \<and>
      Ball_update ?b (rng_const 0)
        = Inr (Sprite_update (Ball_move
                 (?b\<lparr>bounces := 1, dir := 90 + 90 * (0 - 10) / 80 + real_of_int j\<rparr>)), r')"
    unfolding h by (simp add: BOUNCE_SHARPNESS_def)
  with a b d g show ?thesis
    by blast
qed

subsection \<open>Draw calls\<close>

text \<open>The number of draw calls an update issues is the growth of \<open>draws\<close>.\<close>

lemma draws_Sprite_update:
  "draws (Sprite_update s) = draws s + (if changed s then 1 else 0)"
  by (simp add: Sprite_update_def Sprite_draw_def Sprite_update_hitbox_def)

lemma draws_Paddle_update:
  "draws (Paddle_update p) =
     draws p + (if changed p \<or> moving_left p \<or> moving_right p then 1 else 0)"
  by (simp add: Paddle_update_def Paddle_move_def Paddle_left_def Paddle_right_def Let_def
      Sprite_draw_def Sprite_update_hitbox_def)

lemma AIPaddle_steer_frame:
  assumes "AIPaddle_steer b a r = Inr (a1, r1)"
  shows "draws a1 = draws a \<and> changed a1 = changed a"
  using assms
  by (auto simp: AIPaddle_steer_def AIPaddle_set_dir_def AIPaddle_rand_dir_def Let_def
      Paddle_start_left_def Paddle_start_right_def Paddle_stop_left_def Paddle_stop_right_def
      split: if_splits)

lemma draws_AIPaddle_update:
  assumes "AIPaddle_update b a r = Inr (a', r')"
  shows "draws a' =
     draws a + (if changed a \<or> moving_left a' \<or> moving_right a' then 1 else 0)"
proof -
  from assms obtain a1 where
    steer: "AIPaddle_steer b a r = Inr (a1, r')" and
    upd: "a' = Paddle_update (AIPaddle_move a1)"
    by (auto simp: AIPaddle_update_def split: sum.splits)
  have "draws a' = draws a1 + (if changed a1 \<or> moving_left a1 \<or> moving_right a1 then 1 else 0)"
    and "moving_left a' = moving_left a1" and "moving_right a' = moving_right a1"
    unfolding upd
    by (simp_all add: Paddle_update_def Paddle_move_def AIPaddle_move_def Paddle_left_def
        Paddle_right_def Let_def Sprite_draw_def Sprite_update_hitbox_def)
  with AIPaddle_steer_frame [OF steer] show ?thesis
    by simp
qed

lemma draws_Ball_check_walls_goals:
  assumes "Ball_check_walls_goals b r = Inr br"
  shows "draws (fst br) =
     draws b + (if \<not> hits_side_wall (hitbox b) \<and>
                   (hits_bottom_goal (hitbox b) \<or> hits_top_goal (hitbox b)) then 1 else 0)"
  using assms
  by (auto simp: Ball_check_walls_goals_def score_goal_def Ball_reset_fields
      split: if_splits)

lemma draws_Ball_update:
  assumes "Ball_update b r = Inr (b', r')"
  shows "draws b' =
     draws b + (if \<not> hits_side_wall (hitbox b) \<and>
                   (hits_bottom_goal (hitbox b) \<or> hits_top_goal (hitbox b)) then 2 else 1)"
proof -
  from assms obtain b1 where
    coll: "Ball_check_collisions b r = Inr (b1, r')" and
    upd: "b' = Sprite_update (Ball_move b1)"
    by (auto simp: Ball_update_def split: sum.splits)
  from coll obtain br where phase1: "Ball_check_walls_goals b r = Inr br"
    by (auto simp: Ball_check_collisions_def split: sum.splits)
  from Ball_check_collisions_frame [OF coll phase1]
  have "draws b1 = draws (fst br)"
    by simp
  moreover have "draws b' = Suc (draws b1)"
    unfolding upd
    by (simp add: Sprite_update_def Ball_move_def Let_def Sprite_draw_def
        Sprite_update_hitbox_def)
  ultimately show ?thesis
    using draws_Ball_check_walls_goals [OF phase1] by simp
qed

text \<open>
  Claim C6, as the code has it. The update of a scorekeeper issues one draw call when its
  \<^verbatim>\<open>changed\<close> flag is set and none otherwise; the update of a paddle (player or AI) issues
  one when the flag is set or the paddle has a movement intent (which sets the flag) and
  none otherwise; the update of the ball, which always sets the flag, issues one draw
  call on a tick without a goal and two on a tick with a goal: the one of \<^verbatim>\<open>reset\<close> and
  the one of the redraw.
\<close>

theorem draw_calls_per_update:
  "draws (Sprite_update (s::scorekeeper)) = draws s + (if changed s then 1 else 0) \<and>
   draws (Paddle_update (p::player_paddle)) =
     draws p + (if changed p \<or> moving_left p \<or> moving_right p then 1 else 0) \<and>
   (AIPaddle_update b a r = Inr (a', r') \<longrightarrow>
      draws a' = draws a + (if changed a \<or> moving_left a' \<or> moving_right a' then 1 else 0)) \<and>
   (Ball_update c q = Inr (c', q') \<longrightarrow>
      draws c' =
        draws c + (if \<not> hits_side_wall (hitbox c) \<and>
                      (hits_bottom_goal (hitbox c) \<or> hits_top_goal (hitbox c))
                   then 2 else 1))"
  using draws_Sprite_update [of s] draws_Paddle_update [of p]
    draws_AIPaddle_update [of b a r a' r'] draws_Ball_update [of c q c' q']
  by blast

text \<open>The update of the ball of \<^verbatim>\<open>main\<close> in the bottom goal.\<close>

lemma goal_update:
  "Ball_update (ball_at 0 (- 290) 270) (rng_const 0)
     = Inr (Sprite_update (Ball_move (fst (Ball_reset
              ((ball_at 0 (- 290) 270)\<lparr>dir := 90,
                 scores := [Scorekeeper_scored (Scorekeeper_init (- 250) 100),
                            Scorekeeper_init (- 250) (- 100)]\<rparr>) (rng_const 0)))),
            rng_const 0)"
  by (simp add: Ball_update_def Ball_check_collisions_def Ball_check_walls_goals_def
      score_goal_def ball_simps Ball_reset_def Let_def Sprite_draw_def Sprite_update_hitbox_def
      Ball_paddle_bounce_def py_mod_def WIDTH_def)

text \<open>
  The claim as stated fails: on a goal tick the update of the ball, whose \<^verbatim>\<open>changed\<close> flag
  is not even set at the start, issues two draw calls.
\<close>

theorem goal_tick_draws_twice:
  "changed (ball_at 0 (- 290) 270) = False \<and>
   draws (ball_at 0 (- 290) 270) = 0 \<and>
   Ball_update (ball_at 0 (- 290) 270) (rng_const 0)
     = Inr (Sprite_update (Ball_move (fst (Ball_reset
              ((ball_at 0 (- 290) 270)\<lparr>dir := 90,
                 scores := [Scorekeeper_scored (Scorekeeper_init (- 250) 100),
                            Scorekeeper_init (- 250) (- 100)]\<rparr>) (rng_const 0)))),
            rng_const 0) \<and>
   draws (Sprite_update (Ball_move (fst (Ball_reset
              ((ball_at 0 (- 290) 270)\<lparr>dir := 90,
                 scores := [Scorekeeper_scored (Scorekeeper_init (- 250) 100),
                            Scorekeeper_init (- 250) (- 100)]\<rparr>) (rng_const 0))))) = 2"
  using goal_update
  by (simp add: ball_simps Ball_reset_fields Sprite_update_def Ball_move_def Let_def
      Sprite_draw_def Sprite_update_hitbox_def)


text \<open>One update of each kind of entity, the ball on a goal tick.\<close>

lemma ai_update_example:
  "AIPaddle_update (ball_at (- 100) 0 90) main_paddle2 (rng_const 0)
     = Inr (main_paddle2\<lparr>draws := 1, pos_x := - 10, hitbox := (- 50, 30, - 255, - 245),
                         changed := False, moving_left := True\<rparr>, rng_const 0)"
  by (simp add: ai_simps ball_simps paddle_simps)

theorem draw_calls_per_update_witness:
  "draws (Sprite_update (Scorekeeper_init (- 250) 100)) = 1 \<and>
   draws (Paddle_update (PlayerPaddle_init 80 10 0 250 8 ''Left'' ''Right'')) = 1 \<and>
   AIPaddle_update (ball_at (- 100) 0 90) main_paddle2 (rng_const 0)
     = Inr (main_paddle2\<lparr>draws := 1, pos_x := - 10, hitbox := (- 50, 30, - 255, - 245),
                         changed := False, moving_left := True\<rparr>, rng_const 0) \<and>
   draws (main_paddle2\<lparr>draws := 1, pos_x := - 10, hitbox := (- 50, 30, - 255, - 245),
                         changed := False, moving_left := True\<rparr>) = draws main_paddle2 + 1 \<and>
   Ball_update (ball_at 0 (- 290) 270) (rng_const 0)
     = Inr (Sprite_update (Ball_move (fst (Ball_reset
              ((ball_at 0 (- 290) 270)\<lparr>dir := 90,
                 scores := [Scorekeeper_scored (Scorekeeper_init (- 250) 100),
                            Scorekeeper_init (- 250) (- 100)]\<rparr>) (rng_const 0)))),
            rng_const 0) \<and>
   draws (Sprite_update (Ball_move (fst (Ball_reset
              ((ball_at 0 (- 290) 270)\<lparr>dir := 90,
                 scores := [Scorekeeper_scored (Scorekeeper_init (- 250) 100),
                            Scorekeeper_init (- 250) (- 100)]\<rparr>) (rng_const 0)))))
     = draws (ball_at 0 (- 290) 270) + 2"
proof -
  let ?s = "Scorekeeper_init (- 250) 100"
  let ?p = "PlayerPaddle_init 80 10 0 250 8 ''Left'' ''Right''"
  let ?a' = "main_paddle2\<lparr>draws := 1, pos_x := - 10, hitbox := (- 50, 30, - 255, - 245),
                         changed := False, moving_left := True\<rparr>"
  let ?c = "ball_at 0 (- 290) 270"
  let ?c' = "Sprite_update (Ball_move (fst (Ball_reset
              (?c\<lparr>dir := 90,
                 scores := [Scorekeeper_scored (Scorekeeper_init (- 250) 100),
                            Scorekeeper_init (- 250) (- 100)]\<rparr>) (rng_const 0))))"
  have s: "changed ?s" "draws ?s = 0"
    by (simp_all add: Scorekeeper_init_def)
  have p: "changed ?p" "draws ?p = 0"
    by (simp_all add: PlayerPaddle_init_def)
  have a: "changed main_paddle2" "draws main_paddle2 = 0"
    by (simp_all add: main_simps AIPaddle_init_def)
  have c: "\<not> hits_side_wall (hitbox ?c)" "hits_bottom_goal (hitbox ?c)"
    by (simp_all add: ball_simps)
  from draw_calls_per_update
    [of ?s ?p "ball_at (- 100) 0 90" main_paddle2 "rng_const 0" ?a' "rng_const 0"
        ?c "rng_const 0" ?c' "rng_const 0"]
    ai_update_example goal_update s p a c
  show ?thesis
    by simp
qed

end
